theory Spec2Isabelle
  imports Main
begin

section \<open>JavaScript values and strings\<close>

text \<open>
  A JavaScript string is modelled as a \<^typ>\<open>string\<close> whose characters are the code units
  \<open>U+0000\<close> to \<open>U+00FF\<close>.  On that range \<open>String.prototype.toLowerCase\<close> maps
  \<open>A\<close>..\<open>Z\<close> and the Latin-1 capitals (\<open>U+00C0\<close>..\<open>U+00DE\<close> without the
  multiplication sign \<open>U+00D7\<close>) to the code unit 32 above, and the regular expression
  class \<open>\s\<close> holds tab, line feed, vertical tab, form feed, carriage return, space and
  the no-break space \<open>U+00A0\<close>.
\<close>

definition toLowerCase_unit :: "char \<Rightarrow> char" where
  "toLowerCase_unit c =
     (let n = (of_char c :: nat)
      in if (65 \<le> n \<and> n \<le> 90) \<or> (192 \<le> n \<and> n \<le> 222 \<and> n \<noteq> 215)
         then char_of (n + 32) else c)"

definition toLowerCase :: "string \<Rightarrow> string" where
  "toLowerCase s = map toLowerCase_unit s"

definition is_space :: "char \<Rightarrow> bool" where
  "is_space c = ((of_char c :: nat) \<in> {9, 10, 11, 12, 13, 32, 160})"

text \<open>\<open>s.replace(/\s+/g, '-')\<close>: scanning from the left, a whitespace character starts a
  match that greedily takes all the whitespace that follows; the match becomes one \<open>-\<close>.\<close>

function replace_ws :: "string \<Rightarrow> string" where
  "replace_ws [] = []"
| "replace_ws (c # cs) =
     (if is_space c then CHR ''-'' # replace_ws (dropWhile is_space cs)
      else c # replace_ws cs)"
  by pat_completeness auto
termination
  by (relation "measure length") (auto simp: length_dropWhile_le less_Suc_eq_le)

text \<open>\<open>s.split(sep)\<close> for a one-character separator: the pieces between the separators,
  empty pieces included; a string without separator is its only piece.\<close>

fun split_on :: "char \<Rightarrow> string \<Rightarrow> string list" where
  "split_on d [] = [[]]"
| "split_on d (c # cs) =
     (if c = d then [] # split_on d cs
      else (case split_on d cs of
              [] \<Rightarrow> [[c]]
            | p # ps \<Rightarrow> (c # p) # ps))"

text \<open>
  A value read from a property of the parsed \<open>metadata.json\<close>.  The upload handler observes
  three things of such a value: whether it is truthy, whether it is a string (only strings
  have \<open>toLowerCase\<close>), and its conversion to a string inside a template literal.
  \<open>JOther t r\<close> is any value that is neither \<open>undefined\<close> nor a string (\<open>null\<close>, a
  boolean, a number, an array, an object), with truthiness \<open>t\<close> and string conversion \<open>r\<close>.
\<close>

datatype jsval = JUndefined | JString string | JOther bool string

fun truthy :: "jsval \<Rightarrow> bool" where
  "truthy JUndefined = False"
| "truthy (JString s) = (s \<noteq> [])"
| "truthy (JOther t r) = t"

fun to_string :: "jsval \<Rightarrow> string" where
  "to_string JUndefined = ''undefined''"
| "to_string (JString s) = s"
| "to_string (JOther t r) = r"

text \<open>\<open>a || b\<close>\<close>

definition js_or :: "jsval \<Rightarrow> jsval \<Rightarrow> jsval" where
  "js_or a b = (if truthy a then a else b)"


section \<open>Image builder: the upload handler\<close>

text \<open>The interpreted fields of the parsed \<open>metadata.json\<close>; a field that the file does not
  have reads as \<open>undefined\<close>.\<close>

record metadata =
  title :: jsval
  description :: jsval
  level :: jsval
  version :: jsval

text \<open>The outcome of \<open>JSON.parse\<close>: a syntax error, \<open>null\<close> (reading a property of
  it throws), or a value whose properties can be read.\<close>

datatype parsed = SyntaxError string | ParsedNull | Parsed metadata

datatype response = Next | Proxy string | Json nat "(string \<times> string) list"

text \<open>A row of the table \<open>docker_images\<close>; \<open>di_image_id\<close> is the image tag, declared
  \<open>UNIQUE\<close>.\<close>

record image_row =
  di_id :: nat
  di_name :: string
  di_version :: string
  di_level :: string
  di_image_id :: string

record catalog =
  docker_images :: "image_row list"
  docker_images_seq :: nat

record upload_input =
  files :: "string list"
  parsed :: parsed
  build_error :: "string option"

definition validLevels :: "string list" where
  "validLevels = [''beginner'', ''intermediate'', ''advanced'']"

text \<open>The checks on the metadata fields; \<open>Inl\<close> carries the message of the error thrown,
  \<open>Inr\<close> the lowercased level.  Calling \<open>toLowerCase\<close> on a truthy value that is not a
  string throws a \<open>TypeError\<close>.\<close>

definition validate_metadata :: "metadata \<Rightarrow> string + string" where
  "validate_metadata md =
     (if \<not> truthy (title md) then Inl ''Missing required metadata field: title''
      else if \<not> truthy (description md) then Inl ''Missing required metadata field: description''
      else if \<not> truthy (level md) then Inl ''Missing required metadata field: level''
      else (case level md of
              JString l \<Rightarrow>
                (let levelValue = toLowerCase l
                 in if levelValue \<notin> set validLevels
                    then Inl ''Level must be one of: beginner, intermediate, advanced''
                    else Inr levelValue)
            | _ \<Rightarrow> Inl ''metadata.level.toLowerCase is not a function''))"

definition imageTag :: "metadata \<Rightarrow> string + string" where
  "imageTag md =
     (case title md of
        JString t \<Rightarrow>
          Inr (''training/'' @ replace_ws (toLowerCase t) @ '':'' @
               to_string (js_or (version md) (JString ''latest'')))
      | _ \<Rightarrow> Inl ''metadata.title.toLowerCase is not a function'')"

definition bad_request :: "string \<Rightarrow> response" where
  "bad_request msg = Json 400 [(''error'', msg)]"

text \<open>The handler of \<open>POST /upload\<close> from the listing of the extracted directory on.  Every
  error thrown on the way is answered with status 400 and its message.  The build by the
  container runtime is an input: \<open>build_error\<close> is the message of a failed build.\<close>

definition upload :: "catalog \<Rightarrow> upload_input \<Rightarrow> response \<times> catalog" where
  "upload cat inp =
     (if ''Dockerfile'' \<notin> set (files inp)
        then (bad_request ''Missing required file: Dockerfile'', cat)
      else if ''metadata.json'' \<notin> set (files inp)
        then (bad_request ''Missing required file: metadata.json'', cat)
      else (case parsed inp of
        SyntaxError m \<Rightarrow> (bad_request (''Invalid metadata.json format: '' @ m), cat)
      | ParsedNull \<Rightarrow> (bad_request ''Cannot read properties of null'', cat)
      | Parsed md \<Rightarrow>
         (case validate_metadata md of
            Inl m \<Rightarrow> (bad_request m, cat)
          | Inr levelValue \<Rightarrow>
             (case imageTag md of
                Inl m \<Rightarrow> (bad_request m, cat)
              | Inr tag \<Rightarrow>
                 (case build_error inp of
                    Some m \<Rightarrow> (bad_request (''Failed to build Docker image: '' @ m), cat)
                  | None \<Rightarrow>
                     if tag \<in> di_image_id ` set (docker_images cat)
                     then (bad_request (''Failed to build Docker image: '' @
                             ''SQLITE_CONSTRAINT: UNIQUE constraint failed: docker_images.image_id''),
                           cat)
                     else
                       (let v = to_string (js_or (version md) (JString ''latest''));
                            row = \<lparr>di_id = Suc (docker_images_seq cat),
                                   di_name = to_string (title md),
                                   di_version = v,
                                   di_level = levelValue,
                                   di_image_id = tag\<rparr>
                        in (Json 200 [(''message'', ''Exercise uploaded successfully''),
                                      (''image.name'', to_string (title md)),
                                      (''image.version'', v),
                                      (''image.tag'', tag)],
                            \<lparr>docker_images = docker_images cat @ [row],
                             docker_images_seq = Suc (docker_images_seq cat)\<rparr>)))))))"

subsection \<open>The slug and the version as the specification words them\<close>

text \<open>The maximal runs of a list: consecutive elements on which \<open>P\<close> has the same value.\<close>

fun runs :: "('a \<Rightarrow> bool) \<Rightarrow> 'a list \<Rightarrow> 'a list list" where
  "runs P [] = []"
| "runs P (x # xs) =
     (case runs P xs of
        [] \<Rightarrow> [[x]]
      | r # rs \<Rightarrow> (case r of
                    [] \<Rightarrow> [x] # rs
                  | y # ys \<Rightarrow> if P y = P x then (x # r) # rs else [x] # r # rs))"

text \<open>The specification's slug: lowercase, then each maximal run of whitespace becomes a
  single \<open>-\<close> and every other run stays.\<close>

definition dash_run :: "string \<Rightarrow> string" where
  "dash_run r = (case r of [] \<Rightarrow> [] | c # cs \<Rightarrow> if is_space c then ''-'' else r)"

definition slug_spec :: "string \<Rightarrow> string" where
  "slug_spec t = concat (map dash_run (runs is_space (toLowerCase t)))"

text \<open>The specification's version: the field when it is present, \<open>latest\<close> otherwise.\<close>

fun version_spec :: "jsval \<Rightarrow> string" where
  "version_spec JUndefined = ''latest''"
| "version_spec v = to_string v"


section \<open>Registry, runtime, progress and activity\<close>

datatype cstatus = Running | Stopped | Completed

datatype pstatus = NotStarted | InProgress | ProgressCompleted

text \<open>A row of the table \<open>containers\<close>; \<open>container_id\<close> and \<open>subdomain\<close> are declared
  \<open>UNIQUE NOT NULL\<close>.  Timestamps are seconds.\<close>

record container_row =
  container_id :: string
  image_id :: nat
  user_id :: nat
  subdomain :: string
  status :: cstatus
  host_port :: string
  created_at :: nat

text \<open>A row of the table \<open>exercise_progress\<close>, keyed by its \<open>UNIQUE(user_id, image_id)\<close>.\<close>

record progress_row =
  p_status :: pstatus
  attempts :: nat
  completed_at :: "nat option"

text \<open>A container of the runtime: its id, whether it runs, and whether it carries the label
  \<open>training.user\<close>.\<close>

record rt_container =
  rt_id :: string
  rt_running :: bool
  rt_labelled :: bool

text \<open>
  The state the orchestrator works on.  \<open>docker_available\<close> is \<open>docker !== null\<close>.
  \<open>containerActivity\<close> is the global map from a subdomain to the activity callback of its
  watcher; the callback only stores the current time in the watcher's \<open>lastActivity\<close>, so
  the map holds that time.  \<open>system_logs\<close> keeps event type, user and target of each event.
  The database is taken to answer every statement, except the insert of a registry row,
  which can fail.  The training network is not part of the state.
\<close>

record state =
  docker_available :: bool
  runtime :: "rt_container list"
  catalog :: catalog
  containers :: "container_row list"
  exercise_progress :: "nat \<times> nat \<Rightarrow> progress_row option"
  containerActivity :: "string \<Rightarrow> nat option"
  system_logs :: "(string \<times> nat \<times> string) list"

definition logEvent :: "string \<Rightarrow> nat \<Rightarrow> string \<Rightarrow> state \<Rightarrow> state" where
  "logEvent eventType userId targetId st =
     st\<lparr>system_logs := system_logs st @ [(eventType, userId, targetId)]\<rparr>"

subsection \<open>Launch\<close>

text \<open>What the environment contributes to one launch: the subdomain drawn by \<open>uuidv4()\<close>,
  the id of the container that the runtime creates (\<open>None\<close>: the creation fails), whether
  the start succeeds, the host port that \<open>inspect\<close> reports for \<open>8080/tcp\<close>
  (\<open>None\<close>: there is no binding and reading it throws), and the error, if any, that the
  database reports for the insert of the registry row for a reason outside the schema
  (a locked or read-only database, a full disk).\<close>

record launch_env =
  uuid :: string
  created :: "string option"
  started :: bool
  port :: "string option"
  insert_error :: "string option"

definition CONTAINER_IDLE_TIMEOUT :: nat where
  "CONTAINER_IDLE_TIMEOUT = 15 * 60 * 1000"

definition CONTAINER_MAX_LIFETIME :: nat where
  "CONTAINER_MAX_LIFETIME = 2 * 60 * 60 * 1000"

definition set_running :: "string \<Rightarrow> bool \<Rightarrow> rt_container list \<Rightarrow> rt_container list" where
  "set_running cid b rt = map (\<lambda>c. if rt_id c = cid then c\<lparr>rt_running := b\<rparr> else c) rt"

text \<open>The insert of a registry row: the callback of \<open>db.run\<close> gets an error when the
  database reports one or when the row violates \<open>UNIQUE\<close> on \<open>container_id\<close> or
  \<open>subdomain\<close>.\<close>

definition insert_container ::
  "string option \<Rightarrow> container_row \<Rightarrow> container_row list \<Rightarrow> string + container_row list" where
  "insert_container fault new rows =
     (case fault of
        Some err \<Rightarrow> Inl err
      | None \<Rightarrow>
          if \<exists>r \<in> set rows. container_id r = container_id new \<or> subdomain r = subdomain new
          then Inl ''SQLITE_CONSTRAINT: UNIQUE constraint failed''
          else Inr (rows @ [new]))"

text \<open>\<open>DockerService.createContainer\<close>.  \<open>nowMs\<close> is \<open>Date.now()\<close> when the watcher is
  set up, \<open>now\<close> the \<open>CURRENT_TIMESTAMP\<close> of the insert.  An error is logged and rethrown
  as it is: the state stays as the steps before it left it.\<close>

definition createContainer ::
  "nat \<Rightarrow> nat \<Rightarrow> launch_env \<Rightarrow> nat \<Rightarrow> nat \<Rightarrow> state \<Rightarrow> (string + string \<times> string) \<times> state" where
  "createContainer imageId userId env nowMs now st =
     (if \<not> docker_available st then (Inl ''Docker service is not available'', st)
      else (case find (\<lambda>i. di_id i = imageId) (docker_images (catalog st)) of
        None \<Rightarrow> (Inl ''Image not found'', st)
      | Some img \<Rightarrow>
         (case created env of
            None \<Rightarrow> (Inl ''createContainer failed'', st)
          | Some cid \<Rightarrow>
             (let st1 = st\<lparr>runtime := runtime st @
                            [\<lparr>rt_id = cid, rt_running = False, rt_labelled = True\<rparr>]\<rparr>
              in if \<not> started env then (Inl ''start failed'', st1)
                 else
                  (let st2 = st1\<lparr>runtime := set_running cid True (runtime st1)\<rparr>
                   in (case port env of
                         None \<Rightarrow> (Inl ''Cannot read properties of undefined'', st2)
                       | Some hostPort \<Rightarrow>
                          (case insert_container (insert_error env)
                                  \<lparr>container_id = cid, image_id = imageId, user_id = userId,
                                   subdomain = uuid env, status = Running,
                                   host_port = hostPort, created_at = now\<rparr>
                                  (containers st2) of
                             Inl err \<Rightarrow> (Inl err, st2)
                           | Inr rows \<Rightarrow>
                              (let st3 = st2\<lparr>containers := rows\<rparr>;
                                   st4 = st3\<lparr>containerActivity :=
                                               (containerActivity st3)(uuid env \<mapsto> nowMs)\<rparr>;
                                   st5 = logEvent ''container_created'' userId cid st4
                               in (Inr (cid, uuid env @ ''.apptraining.dbg.local''), st5)))))))))"

definition internal_error :: response where
  "internal_error = Json 500 [(''error'', ''Internal server error'')]"

definition already_running :: "container_row \<Rightarrow> response" where
  "already_running existingContainer =
     Json 400 [(''error'', ''Container already running for this exercise''),
               (''containerId'', container_id existingContainer),
               (''subdomain'', subdomain existingContainer @ ''.apptraining.dbg.local''),
               (''message'', ''You already have a running instance of this exercise. Please use the existing container or stop it first.'')]"

definition quota_exceeded :: response where
  "quota_exceeded =
     Json 400 [(''error'', ''Maximum container limit reached''),
               (''message'', ''You can only have 3 active containers at a time. Please stop an existing container before launching a new one.'')]"

definition unauthorized :: response where
  "unauthorized = Json 401 [(''error'', ''Unauthorized'')]"

text \<open>\<open>INSERT OR REPLACE INTO exercise_progress\<close>: the row of the pair is replaced by a new
  one; \<open>completed_at\<close> is not among the inserted columns and takes its default \<open>NULL\<close>.\<close>

definition upsert_progress :: "nat \<Rightarrow> nat \<Rightarrow> state \<Rightarrow> state" where
  "upsert_progress userId imageId st =
     st\<lparr>exercise_progress := (exercise_progress st)((userId, imageId) \<mapsto>
          \<lparr>p_status = InProgress,
           attempts = (case exercise_progress st (userId, imageId) of
                         None \<Rightarrow> 1
                       | Some r \<Rightarrow> attempts r + 1),
           completed_at = None\<rparr>)\<rparr>"

text \<open>The handler of \<open>POST /launch/:imageId\<close>; \<open>session\<close> is \<open>req.session.userId\<close>.\<close>

definition launch ::
  "nat option \<Rightarrow> nat \<Rightarrow> launch_env \<Rightarrow> nat \<Rightarrow> nat \<Rightarrow> state \<Rightarrow> response \<times> state" where
  "launch session imageId env nowMs now st =
     (case session of
        None \<Rightarrow> (unauthorized, st)
      | Some userId \<Rightarrow>
         (case find (\<lambda>r. user_id r = userId \<and> image_id r = imageId \<and> status r = Running)
                    (containers st) of
            Some existingContainer \<Rightarrow> (already_running existingContainer, st)
          | None \<Rightarrow>
             if length (filter (\<lambda>r. user_id r = userId \<and> status r = Running) (containers st)) \<ge> 3
             then (quota_exceeded, st)
             else (case createContainer imageId userId env nowMs now st of
                     (Inl err, st') \<Rightarrow> (internal_error, st')
                   | (Inr (containerId, sub), st') \<Rightarrow>
                       (Json 200 [(''containerId'', containerId), (''subdomain'', sub)],
                        upsert_progress userId imageId st'))))"


subsection \<open>Stop\<close>

text \<open>\<open>DockerService.stopContainer\<close>.  A failing \<open>stop\<close> or \<open>remove\<close> of the runtime
  (the container is not running, or is gone) is only logged as a warning.  The registry
  update names no status in its \<open>WHERE\<close> clause.\<close>

definition stopContainer :: "string \<Rightarrow> state \<Rightarrow> string option \<times> state" where
  "stopContainer containerId st =
     (if \<not> docker_available st then (Some ''Docker service is not available'', st)
      else
       (let containerInfo = find (\<lambda>r. container_id r = containerId) (containers st);
            st1 = st\<lparr>runtime := set_running containerId False (runtime st)\<rparr>;
            st2 = st1\<lparr>runtime := filter (\<lambda>c. rt_id c \<noteq> containerId) (runtime st1)\<rparr>;
            st3 = (case containerInfo of
                     None \<Rightarrow> st2
                   | Some info \<Rightarrow> logEvent ''container_stopped'' (user_id info) containerId st2);
            st4 = st3\<lparr>containers :=
                        map (\<lambda>r. if container_id r = containerId then r\<lparr>status := Stopped\<rparr> else r)
                            (containers st3)\<rparr>;
            st5 = (case find (\<lambda>r. container_id r = containerId) (containers st4) of
                     None \<Rightarrow> st4
                   | Some row \<Rightarrow>
                       if subdomain row \<noteq> []
                       then st4\<lparr>containerActivity := (containerActivity st4)(subdomain row := None)\<rparr>
                       else st4)
        in (None, st5)))"

text \<open>The handler of \<open>POST /:containerId/stop\<close> (the owner stops a container).\<close>

definition stop_route :: "nat option \<Rightarrow> string \<Rightarrow> state \<Rightarrow> response \<times> state" where
  "stop_route session containerId st =
     (case session of
        None \<Rightarrow> (unauthorized, st)
      | Some userId \<Rightarrow>
         (case find (\<lambda>r. container_id r = containerId \<and> user_id r = userId) (containers st) of
            None \<Rightarrow> (Json 404 [(''error'', ''Container not found'')], st)
          | Some container \<Rightarrow>
             (case stopContainer containerId st of
                (Some err, st') \<Rightarrow> (internal_error, st')
              | (None, st') \<Rightarrow> (Json 200 [(''message'', ''Container stopped successfully'')], st'))))"

text \<open>The handler of \<open>POST /containers/:containerId/stop\<close> of the admin router; \<open>admin\<close> is
  \<open>req.session.userRole === 'admin'\<close>.\<close>

definition admin_stop_route :: "bool \<Rightarrow> string \<Rightarrow> state \<Rightarrow> response \<times> state" where
  "admin_stop_route admin containerId st =
     (if \<not> admin then (Json 403 [(''error'', ''Forbidden'')], st)
      else (case stopContainer containerId st of
              (Some err, st') \<Rightarrow> (internal_error, st')
            | (None, st') \<Rightarrow> (Json 200 [(''message'', ''Container stopped successfully'')], st')))"

text \<open>One tick of the watcher of \<open>monitorContainer\<close>, with the variables of its closure as
  arguments (milliseconds).  The result says whether the next tick is scheduled; an error of
  the stop is logged and dropped.\<close>

definition checkActivity :: "string \<Rightarrow> nat \<Rightarrow> nat \<Rightarrow> nat \<Rightarrow> state \<Rightarrow> bool \<times> state" where
  "checkActivity containerId lastActivity startTime nowMs st =
     (let idleTime = nowMs - lastActivity;
          lifetime = nowMs - startTime
      in if idleTime \<ge> CONTAINER_IDLE_TIMEOUT \<or> lifetime \<ge> CONTAINER_MAX_LIFETIME
         then (False, snd (stopContainer containerId st))
         else (True, st))"

subsection \<open>Completion callback\<close>

text \<open>\<open>DockerService.handleExerciseCompletion\<close>; the payload only goes into the details of
  the logged event.  \<open>now\<close> is \<open>CURRENT_TIMESTAMP\<close>.  Both updates change the rows that
  exist and match, whatever their status.\<close>

definition handleExerciseCompletion :: "string \<Rightarrow> nat \<Rightarrow> state \<Rightarrow> string option \<times> state" where
  "handleExerciseCompletion sub now st =
     (case find (\<lambda>r. subdomain r = sub) (containers st) of
        None \<Rightarrow> (Some ''Container not found'', st)
      | Some containerInfo \<Rightarrow>
         (let st1 = logEvent ''exercise_completed'' (user_id containerInfo)
                      (container_id containerInfo) st;
              key = (user_id containerInfo, image_id containerInfo);
              st2 = (case exercise_progress st1 key of
                       None \<Rightarrow> st1
                     | Some p \<Rightarrow>
                         st1\<lparr>exercise_progress := (exercise_progress st1)(key \<mapsto>
                               p\<lparr>p_status := ProgressCompleted, completed_at := Some now\<rparr>)\<rparr>);
              st3 = st2\<lparr>containers :=
                          map (\<lambda>r. if subdomain r = sub then r\<lparr>status := Completed\<rparr> else r)
                              (containers st2)\<rparr>
          in (None, st3)))"

text \<open>The handler of \<open>POST /:subdomain/complete\<close>: every error of the service is answered
  with status 500.\<close>

definition complete_route :: "string \<Rightarrow> nat \<Rightarrow> state \<Rightarrow> response \<times> state" where
  "complete_route sub now st =
     (case handleExerciseCompletion sub now st of
        (Some err, st') \<Rightarrow> (internal_error, st')
      | (None, st') \<Rightarrow> (Json 200 [(''success'', ''true'')], st'))"

subsection \<open>Reconciliation\<close>

text \<open>What the runtime contributes to one reconciliation: whether \<open>listContainers\<close> answers
  (it throws when the daemon cannot be reached), the ids of the containers whose forced
  removal throws, and whether \<open>pruneContainers\<close> answers.\<close>

record cleanup_env =
  listed :: bool
  unremovable :: "string list"
  pruned :: bool

text \<open>\<open>DockerService.cleanupResources\<close>: the registry is read first, then the labelled
  containers of the runtime are listed; an error of the listing is caught by the outer
  \<open>catch\<close>, which logs it and ends the pass before anything is changed.  Then stopped rows
  created more than 24 hours before \<open>now\<close> are deleted; every listed container without a row
  (among those read) is removed by force, a failing removal being logged and skipped;
  \<open>pruneContainers\<close> then removes the containers of the runtime that do not run, and an error
  of it ends the pass with the steps before it done.\<close>

definition cleanupResources :: "cleanup_env \<Rightarrow> nat \<Rightarrow> state \<Rightarrow> state" where
  "cleanupResources env now st =
     (if \<not> docker_available st then st
      else
       (let dbContainers = containers st
        in if \<not> listed env then st
           else
            (let dockerContainers = filter rt_labelled (runtime st);
                 st1 = st\<lparr>containers :=
                             filter (\<lambda>r. \<not> (status r = Stopped \<and> created_at r + 24 * 60 * 60 < now))
                                    (containers st)\<rparr>;
                 orphans = filter (\<lambda>d. find (\<lambda>c. container_id c = rt_id d) dbContainers = None)
                                  dockerContainers;
                 removed = filter (\<lambda>i. i \<notin> set (unremovable env)) (map rt_id orphans);
                 st2 = st1\<lparr>runtime := filter (\<lambda>c. rt_id c \<notin> set removed) (runtime st1)\<rparr>;
                 st3 = (if pruned env
                        then st2\<lparr>runtime := filter rt_running (runtime st2)\<rparr>
                        else st2)
             in st3)))"

section \<open>Subdomain router\<close>

definition extractSubdomain :: "string \<Rightarrow> string option" where
  "extractSubdomain hostname =
     (let parts = split_on CHR ''.'' hostname
      in if length parts > 2 then Some (parts ! 0) else None)"

definition is_hex :: "char \<Rightarrow> bool" where
  "is_hex c = (c \<in> set ''0123456789abcdefABCDEF'')"

definition is_dash :: "char \<Rightarrow> bool" where
  "is_dash c = (c = CHR ''-'')"

text \<open>The five groups of a UUID, with the class of the version digit as a parameter; the
  first digit of the fourth group is the variant.\<close>

definition uuid_pattern :: "(char \<Rightarrow> bool) \<Rightarrow> (char \<Rightarrow> bool) list" where
  "uuid_pattern ver =
     replicate 8 is_hex @ [is_dash] @ replicate 4 is_hex @ [is_dash] @
     [ver] @ replicate 3 is_hex @ [is_dash] @
     [\<lambda>c. c \<in> set ''89abAB''] @ replicate 3 is_hex @ [is_dash] @ replicate 12 is_hex"

text \<open>\<open>validate\<close> of the package \<open>uuid\<close>, which tests a string against
  \<^verbatim>\<open>/^(?:[0-9a-f]{8}-[0-9a-f]{4}-[1-5][0-9a-f]{3}-[89ab][0-9a-f]{3}-[0-9a-f]{12}|00000000-0000-0000-0000-000000000000)$/i\<close>.\<close>

definition validateUUID :: "string \<Rightarrow> bool" where
  "validateUUID s =
     (list_all2 (\<lambda>p c. p c) (uuid_pattern (\<lambda>c. c \<in> set ''12345'')) s
      \<or> s = ''00000000-0000-0000-0000-000000000000'')"

text \<open>A UUID of version 4 (the specification's subdomain pattern): the version digit is 4.\<close>

definition is_uuid_v4 :: "string \<Rightarrow> bool" where
  "is_uuid_v4 s = list_all2 (\<lambda>p c. p c) (uuid_pattern (\<lambda>c. c = CHR ''4'')) s"

definition not_running :: "string \<Rightarrow> response" where
  "not_running sub =
     Json 404 [(''error'', ''Container not found or not running''), (''subdomain'', sub)]"

text \<open>The middleware made by \<open>createSubdomainHandler\<close>.  \<open>Next\<close> passes the request on to
  the main application; \<open>Proxy target\<close> hands it to the proxy.\<close>

definition subdomainHandler :: "string \<Rightarrow> nat \<Rightarrow> state \<Rightarrow> response \<times> state" where
  "subdomainHandler hostname nowMs st =
     (case extractSubdomain hostname of
        None \<Rightarrow> (Next, st)
      | Some sub \<Rightarrow>
         if sub = [] \<or> \<not> validateUUID sub then (Next, st)
         else (case find (\<lambda>r. subdomain r = sub \<and> status r = Running) (containers st) of
                 None \<Rightarrow> (not_running sub, st)
               | Some container \<Rightarrow>
                  (let st1 = (case containerActivity st sub of
                                None \<Rightarrow> st
                              | Some t \<Rightarrow>
                                  st\<lparr>containerActivity := (containerActivity st)(sub \<mapsto> nowMs)\<rparr>)
                   in (Proxy (''http://localhost:'' @ host_port container), st1))))"


section \<open>States used in the examples\<close>

definition empty_state :: state where
  "empty_state =
     \<lparr>docker_available = True, runtime = [],
      catalog = \<lparr>docker_images = [], docker_images_seq = 0\<rparr>,
      containers = [], exercise_progress = Map.empty, containerActivity = Map.empty,
      system_logs = []\<rparr>"

text \<open>A catalog with one exercise, of id 1.\<close>

definition one_image :: catalog where
  "one_image =
     \<lparr>docker_images = [\<lparr>di_id = 1, di_name = ''SQL Injection'', di_version = ''latest'',
                         di_level = ''beginner'',
                         di_image_id = ''training/sql-injection:latest''\<rparr>],
      docker_images_seq = 1\<rparr>"

text \<open>A registry row of user 1 with the given container id, exercise, subdomain and status.\<close>

definition row :: "string \<Rightarrow> nat \<Rightarrow> string \<Rightarrow> cstatus \<Rightarrow> container_row" where
  "row cid img sub s =
     \<lparr>container_id = cid, image_id = img, user_id = 1, subdomain = sub, status = s,
      host_port = ''32768'', created_at = 0\<rparr>"

section \<open>Properties of the string functions\<close>

lemma runs_Cons_head: "\<exists>r rs. runs P (x # xs) = (x # r) # rs"
  by (cases "runs P xs") (auto split: list.splits)

lemma dash_runs_nonspace:
  assumes nx: "\<not> is_space x"
  shows "concat (map dash_run (runs is_space (x # xs))) =
         x # concat (map dash_run (runs is_space xs))"
proof (cases xs)
  case Nil
  then show ?thesis using nx by (simp add: dash_run_def)
next
  case (Cons y ys)
  obtain r rs where r: "runs is_space (y # ys) = (y # r) # rs"
    using runs_Cons_head [of is_space y ys] by auto
  show ?thesis using nx r Cons by (auto simp: dash_run_def)
qed

lemma dash_runs_space:
  "is_space x \<Longrightarrow>
   concat (map dash_run (runs is_space (x # xs))) =
   CHR ''-'' # concat (map dash_run (runs is_space (dropWhile is_space xs)))"
proof (induction xs arbitrary: x)
  case Nil
  then show ?case by (simp add: dash_run_def)
next
  case (Cons y ys)
  obtain r rs where r: "runs is_space (y # ys) = (y # r) # rs"
    using runs_Cons_head [of is_space y ys] by auto
  show ?case
  proof (cases "is_space y")
    case True
    have "concat (map dash_run (runs is_space (x # y # ys))) =
          concat (map dash_run (runs is_space (y # ys)))"
      using Cons.prems True r by (simp add: dash_run_def)
    then show ?thesis using Cons.IH [OF True] True by simp
  next
    case False
    then show ?thesis using Cons.prems r by (simp add: dash_run_def)
  qed
qed

text \<open>The regular-expression replacement is the replacement of the maximal whitespace runs.\<close>

lemma replace_ws_runs: "replace_ws s = concat (map dash_run (runs is_space s))"
  by (induction s rule: replace_ws.induct)
     (simp_all add: dash_runs_space dash_runs_nonspace del: runs.simps(2))

lemma pattern_weaken:
  "list_all2 (\<lambda>p q. \<forall>c. p c \<longrightarrow> q c) ps qs \<Longrightarrow> list_all2 (\<lambda>p c. p c) ps s
   \<Longrightarrow> list_all2 (\<lambda>q c. q c) qs s"
proof (induction ps arbitrary: qs s)
  case Nil
  then show ?case by simp
next
  case (Cons p ps)
  then show ?case by (auto simp: list_all2_Cons1)
qed

lemma uuid_pattern_mono:
  assumes "\<And>c. v c \<Longrightarrow> w c"
  shows "list_all2 (\<lambda>p q. \<forall>c. p c \<longrightarrow> q c) (uuid_pattern v) (uuid_pattern w)"
  unfolding uuid_pattern_def
  by (intro list_all2_appendI) (simp_all add: assms list_all2_same)

text \<open>Every UUID of version 4 passes \<open>validate\<close>.\<close>

lemma v4_valid: "is_uuid_v4 s \<Longrightarrow> validateUUID s"
  unfolding is_uuid_v4_def validateUUID_def
  using pattern_weaken [OF uuid_pattern_mono [of "\<lambda>c. c = CHR ''4''" "\<lambda>c. c \<in> set ''12345''"]]
  by auto

section \<open>Bundle validation\<close>

lemma validate_metadata_level:
  assumes "truthy (title md)" and "truthy (description md)"
  shows "validate_metadata md = Inr lv \<longleftrightarrow>
         (\<exists>s. level md = JString s \<and> toLowerCase s = lv \<and> lv \<in> set validLevels)"
proof (cases "level md")
  case JUndefined
  then show ?thesis using assms by (simp add: validate_metadata_def)
next
  case (JString s)
  have "s = [] \<Longrightarrow> toLowerCase s \<notin> set validLevels"
    by (simp add: toLowerCase_def validLevels_def)
  then show ?thesis using assms JString
    by (auto simp: validate_metadata_def Let_def)
next
  case (JOther t r)
  then show ?thesis using assms by (simp add: validate_metadata_def)
qed

lemma validate_metadata_reject:
  assumes "\<not> (\<exists>s. level md = JString s \<and> toLowerCase s \<in> set validLevels)"
  shows "\<exists>m. validate_metadata md = Inl m"
  using assms by (cases "level md") (auto simp: validate_metadata_def Let_def)

lemma upload_reject:
  assumes "parsed inp = Parsed md" and "validate_metadata md = Inl m"
  shows "\<exists>m'. upload cat inp = (Json 400 [(''error'', m')], cat)"
  using assms by (auto simp: upload_def bad_request_def)

lemma upload_accept:
  assumes "''Dockerfile'' \<in> set (files inp)" and "''metadata.json'' \<in> set (files inp)"
    and "parsed inp = Parsed md" and "validate_metadata md = Inr lv"
    and "imageTag md = Inr tag" and "build_error inp = None"
    and "tag \<notin> di_image_id ` set (docker_images cat)"
  shows "upload cat inp =
          (Json 200 [(''message'', ''Exercise uploaded successfully''),
                     (''image.name'', to_string (title md)),
                     (''image.version'', to_string (js_or (version md) (JString ''latest''))),
                     (''image.tag'', tag)],
           \<lparr>docker_images = docker_images cat @
              [\<lparr>di_id = Suc (docker_images_seq cat), di_name = to_string (title md),
                di_version = to_string (js_or (version md) (JString ''latest'')),
                di_level = lv, di_image_id = tag\<rparr>],
            docker_images_seq = Suc (docker_images_seq cat)\<rparr>)"
  using assms by (simp add: upload_def Let_def)

text \<open>
  C8.  The level of the metadata is compared case-insensitively.  A bundle whose level is a
  string with the lowercased form \<open>beginner\<close>, \<open>intermediate\<close> or \<open>advanced\<close> (so
  \<open>Beginner\<close>, \<open>BEGINNER\<close> and \<open>beginner\<close> alike), and that is in order otherwise, is
  accepted by the upload handler: the answer is 200 and the new row of the catalog has the
  lowercased level.  When title and description are truthy, the validation of the metadata
  passes exactly for those levels.  Every other level makes the validation throw, and the
  upload is answered with status 400 and the catalog is left as it was.
\<close>

theorem level_case_insensitive:
  "(''Dockerfile'' \<in> set (files inp) \<and> ''metadata.json'' \<in> set (files inp)
      \<and> parsed inp = Parsed md \<and> truthy (title md) \<and> truthy (description md)
      \<and> imageTag md = Inr tag \<and> build_error inp = None
      \<and> tag \<notin> di_image_id ` set (docker_images cat)
      \<and> level md = JString s
      \<and> toLowerCase s \<in> {''beginner'', ''intermediate'', ''advanced''}
     \<longrightarrow> upload cat inp =
          (Json 200 [(''message'', ''Exercise uploaded successfully''),
                     (''image.name'', to_string (title md)),
                     (''image.version'', to_string (js_or (version md) (JString ''latest''))),
                     (''image.tag'', tag)],
           \<lparr>docker_images = docker_images cat @
              [\<lparr>di_id = Suc (docker_images_seq cat), di_name = to_string (title md),
                di_version = to_string (js_or (version md) (JString ''latest'')),
                di_level = toLowerCase s, di_image_id = tag\<rparr>],
            docker_images_seq = Suc (docker_images_seq cat)\<rparr>))
   \<and> (truthy (title md) \<and> truthy (description md) \<longrightarrow>
      (validate_metadata md = Inr lv \<longleftrightarrow>
        (\<exists>s. level md = JString s \<and> toLowerCase s = lv \<and>
             lv \<in> {''beginner'', ''intermediate'', ''advanced''})))
   \<and> (parsed inp = Parsed md \<and>
        \<not> (\<exists>s. level md = JString s \<and>
                toLowerCase s \<in> {''beginner'', ''intermediate'', ''advanced''}) \<longrightarrow>
        (\<exists>m. validate_metadata md = Inl m) \<and>
        (\<exists>m. upload cat inp = (Json 400 [(''error'', m)], cat)))"
proof -
  have accept: "validate_metadata md = Inr lv \<longleftrightarrow>
        (\<exists>s. level md = JString s \<and> toLowerCase s = lv \<and>
             lv \<in> {''beginner'', ''intermediate'', ''advanced''})"
    if "truthy (title md) \<and> truthy (description md)" for lv
    using that validate_metadata_level [of md lv] by (simp add: validLevels_def)
  have handler: "upload cat inp =
          (Json 200 [(''message'', ''Exercise uploaded successfully''),
                     (''image.name'', to_string (title md)),
                     (''image.version'', to_string (js_or (version md) (JString ''latest''))),
                     (''image.tag'', tag)],
           \<lparr>docker_images = docker_images cat @
              [\<lparr>di_id = Suc (docker_images_seq cat), di_name = to_string (title md),
                di_version = to_string (js_or (version md) (JString ''latest'')),
                di_level = toLowerCase s, di_image_id = tag\<rparr>],
            docker_images_seq = Suc (docker_images_seq cat)\<rparr>)"
    if a: "''Dockerfile'' \<in> set (files inp) \<and> ''metadata.json'' \<in> set (files inp)
      \<and> parsed inp = Parsed md \<and> truthy (title md) \<and> truthy (description md)
      \<and> imageTag md = Inr tag \<and> build_error inp = None
      \<and> tag \<notin> di_image_id ` set (docker_images cat)
      \<and> level md = JString s
      \<and> toLowerCase s \<in> {''beginner'', ''intermediate'', ''advanced''}"
  proof -
    from a have "validate_metadata md = Inr (toLowerCase s)"
      using accept [of "toLowerCase s"] by blast
    with a show ?thesis using upload_accept [of inp md "toLowerCase s" tag cat] by blast
  qed
  have reject: "(\<exists>m. validate_metadata md = Inl m) \<and>
        (\<exists>m. upload cat inp = (Json 400 [(''error'', m)], cat))"
    if a: "parsed inp = Parsed md \<and>
        \<not> (\<exists>s. level md = JString s \<and>
                toLowerCase s \<in> {''beginner'', ''intermediate'', ''advanced''})"
  proof -
    obtain m where m: "validate_metadata md = Inl m"
      using a validate_metadata_reject [of md] by (auto simp: validLevels_def)
    with a have "\<exists>m. upload cat inp = (Json 400 [(''error'', m)], cat)"
      using upload_reject [of inp md m cat] by simp
    with m show ?thesis by blast
  qed
  from handler accept [of lv] reject show ?thesis by blast
qed

theorem level_case_insensitive_witness:
  "upload \<lparr>docker_images = [], docker_images_seq = 0\<rparr>
             \<lparr>files = [''Dockerfile'', ''metadata.json''],
              parsed = Parsed \<lparr>title = JString ''SQL Injection'', description = JString ''d'',
                               level = JString ''Beginner'', version = JUndefined\<rparr>,
              build_error = None\<rparr>
      = (Json 200 [(''message'', ''Exercise uploaded successfully''),
                   (''image.name'', ''SQL Injection''),
                   (''image.version'', ''latest''),
                   (''image.tag'', ''training/sql-injection:latest'')],
         \<lparr>docker_images = [\<lparr>di_id = 1, di_name = ''SQL Injection'', di_version = ''latest'',
                             di_level = ''beginner'',
                             di_image_id = ''training/sql-injection:latest''\<rparr>],
          docker_images_seq = 1\<rparr>)
   \<and> upload \<lparr>docker_images = [], docker_images_seq = 0\<rparr>
             \<lparr>files = [''Dockerfile'', ''metadata.json''],
              parsed = Parsed \<lparr>title = JString ''SQL Injection'', description = JString ''d'',
                               level = JString ''BEGINNER'', version = JUndefined\<rparr>,
              build_error = None\<rparr>
      = (Json 200 [(''message'', ''Exercise uploaded successfully''),
                   (''image.name'', ''SQL Injection''),
                   (''image.version'', ''latest''),
                   (''image.tag'', ''training/sql-injection:latest'')],
         \<lparr>docker_images = [\<lparr>di_id = 1, di_name = ''SQL Injection'', di_version = ''latest'',
                             di_level = ''beginner'',
                             di_image_id = ''training/sql-injection:latest''\<rparr>],
          docker_images_seq = 1\<rparr>)
   \<and> upload \<lparr>docker_images = [], docker_images_seq = 0\<rparr>
             \<lparr>files = [''Dockerfile'', ''metadata.json''],
              parsed = Parsed \<lparr>title = JString ''SQL Injection'', description = JString ''d'',
                               level = JString ''beginner'', version = JUndefined\<rparr>,
              build_error = None\<rparr>
      = (Json 200 [(''message'', ''Exercise uploaded successfully''),
                   (''image.name'', ''SQL Injection''),
                   (''image.version'', ''latest''),
                   (''image.tag'', ''training/sql-injection:latest'')],
         \<lparr>docker_images = [\<lparr>di_id = 1, di_name = ''SQL Injection'', di_version = ''latest'',
                             di_level = ''beginner'',
                             di_image_id = ''training/sql-injection:latest''\<rparr>],
          docker_images_seq = 1\<rparr>)
   \<and> (\<exists>m. upload \<lparr>docker_images = [], docker_images_seq = 0\<rparr>
              \<lparr>files = [''Dockerfile'', ''metadata.json''],
               parsed = Parsed \<lparr>title = JString ''SQL Injection'', description = JString ''d'',
                                level = JString ''expert'', version = JUndefined\<rparr>,
               build_error = None\<rparr>
          = (Json 400 [(''error'', m)], \<lparr>docker_images = [], docker_images_seq = 0\<rparr>))"
proof -
  have l1: "toLowerCase ''Beginner'' = ''beginner''" by code_simp
  have l2: "toLowerCase ''BEGINNER'' = ''beginner''" by code_simp
  have l3: "toLowerCase ''beginner'' = ''beginner''" by code_simp
  have l4: "toLowerCase ''expert'' = ''expert''" by code_simp
  let ?md = "\<lambda>l. \<lparr>title = JString ''SQL Injection'', description = JString ''d'',
                      level = JString l, version = JUndefined\<rparr>"
  let ?inp = "\<lambda>l. \<lparr>files = [''Dockerfile'', ''metadata.json''], parsed = Parsed (?md l),
                     build_error = None\<rparr>"
  let ?cat = "\<lparr>docker_images = [], docker_images_seq = 0\<rparr>"
  have tg: "imageTag (?md l) = Inr ''training/sql-injection:latest''" for l
  proof -
    have "replace_ws (toLowerCase ''SQL Injection'') = ''sql-injection''" by code_simp
    then show ?thesis by (simp add: imageTag_def js_or_def)
  qed
  note t = level_case_insensitive
  have a1: "upload ?cat (?inp ''Beginner'') =
      (Json 200 [(''message'', ''Exercise uploaded successfully''),
                   (''image.name'', ''SQL Injection''),
                   (''image.version'', ''latest''),
                   (''image.tag'', ''training/sql-injection:latest'')],
         \<lparr>docker_images = [\<lparr>di_id = 1, di_name = ''SQL Injection'', di_version = ''latest'',
                             di_level = ''beginner'',
                             di_image_id = ''training/sql-injection:latest''\<rparr>],
          docker_images_seq = 1\<rparr>)"
    using t [of "?inp ''Beginner''" "?md ''Beginner''" "''training/sql-injection:latest''" ?cat
               "''Beginner''"] tg [of "''Beginner''"] l1
    by (simp add: js_or_def)
  have a2: "upload ?cat (?inp ''BEGINNER'') =
      (Json 200 [(''message'', ''Exercise uploaded successfully''),
                   (''image.name'', ''SQL Injection''),
                   (''image.version'', ''latest''),
                   (''image.tag'', ''training/sql-injection:latest'')],
         \<lparr>docker_images = [\<lparr>di_id = 1, di_name = ''SQL Injection'', di_version = ''latest'',
                             di_level = ''beginner'',
                             di_image_id = ''training/sql-injection:latest''\<rparr>],
          docker_images_seq = 1\<rparr>)"
    using t [of "?inp ''BEGINNER''" "?md ''BEGINNER''" "''training/sql-injection:latest''" ?cat
               "''BEGINNER''"] tg [of "''BEGINNER''"] l2
    by (simp add: js_or_def)
  have a3: "upload ?cat (?inp ''beginner'') =
      (Json 200 [(''message'', ''Exercise uploaded successfully''),
                   (''image.name'', ''SQL Injection''),
                   (''image.version'', ''latest''),
                   (''image.tag'', ''training/sql-injection:latest'')],
         \<lparr>docker_images = [\<lparr>di_id = 1, di_name = ''SQL Injection'', di_version = ''latest'',
                             di_level = ''beginner'',
                             di_image_id = ''training/sql-injection:latest''\<rparr>],
          docker_images_seq = 1\<rparr>)"
    using t [of "?inp ''beginner''" "?md ''beginner''" "''training/sql-injection:latest''" ?cat
               "''beginner''"] tg [of "''beginner''"] l3
    by (simp add: js_or_def)
  have a4: "\<exists>m. upload ?cat (?inp ''expert'') = (Json 400 [(''error'', m)], ?cat)"
    using t [of "?inp ''expert''" "?md ''expert''" _ ?cat] l4 by auto
  from a1 a2 a3 a4 show ?thesis by simp
qed

text \<open>
  C9 (amended).  For every accepted bundle the title is a string and the image tag of the
  answer is \<open>training/\<close>, the slug of the title (lowercased, each maximal run of whitespace
  replaced by one \<open>-\<close>), a colon, and the version: the version field of the metadata when
  it is truthy (for a string: not empty), and \<open>latest\<close> otherwise.
\<close>

theorem imageTag_of_accepted_bundle:
  assumes "upload cat inp = (Json 200 body, cat')" and "parsed inp = Parsed md"
  shows "\<exists>t. title md = JString t \<and>
             map_of body ''image.tag'' =
               Some (''training/'' @ slug_spec t @ '':'' @
                     (if truthy (version md) then to_string (version md) else ''latest''))"
proof -
  from assms obtain lv tag where v: "validate_metadata md = Inr lv" and t: "imageTag md = Inr tag"
    and b: "map_of body ''image.tag'' = Some tag"
    by (auto simp: upload_def bad_request_def Let_def split: if_splits sum.splits option.splits)
  from t obtain tt where tt: "title md = JString tt"
    by (cases "title md") (auto simp: imageTag_def)
  with t have "tag = ''training/'' @ slug_spec tt @ '':'' @
                     (if truthy (version md) then to_string (version md) else ''latest'')"
    by (auto simp: imageTag_def slug_spec_def replace_ws_runs js_or_def)
  with b tt show ?thesis by simp
qed

theorem imageTag_of_accepted_bundle_witness:
  "\<exists>t. JString ''SQL  Injection'' = JString t \<and>
       map_of [(''message'', ''Exercise uploaded successfully''),
               (''image.name'', ''SQL  Injection''),
               (''image.version'', ''1.0''),
               (''image.tag'', ''training/sql-injection:1.0'')] ''image.tag'' =
         Some (''training/'' @ slug_spec t @ '':'' @ ''1.0'')"
proof -
  let ?md = "\<lparr>title = JString ''SQL  Injection'', description = JString ''d'',
              level = JString ''beginner'', version = JString ''1.0''\<rparr>"
  let ?inp = "\<lparr>files = [''Dockerfile'', ''metadata.json''], parsed = Parsed ?md,
               build_error = None\<rparr>"
  have h1: "upload \<lparr>docker_images = [], docker_images_seq = 0\<rparr> ?inp
     = (Json 200 [(''message'', ''Exercise uploaded successfully''),
                  (''image.name'', ''SQL  Injection''),
                  (''image.version'', ''1.0''),
                  (''image.tag'', ''training/sql-injection:1.0'')],
        \<lparr>docker_images = [\<lparr>di_id = 1, di_name = ''SQL  Injection'', di_version = ''1.0'',
                            di_level = ''beginner'',
                            di_image_id = ''training/sql-injection:1.0''\<rparr>],
         docker_images_seq = 1\<rparr>)"
    by code_simp
  have h2: "parsed ?inp = Parsed ?md" by simp
  from imageTag_of_accepted_bundle [OF h1 h2] show ?thesis by simp
qed

text \<open>
  The claim as stated takes the version field whenever it is present.  A bundle whose
  \<open>metadata.json\<close> has the version \<open>""\<close> is accepted and its tag ends in \<open>latest\<close>, where
  the stated rule gives the empty version.
\<close>

theorem imageTag_version_counterexample:
  "upload \<lparr>docker_images = [], docker_images_seq = 0\<rparr>
          \<lparr>files = [''Dockerfile'', ''metadata.json''],
           parsed = Parsed \<lparr>title = JString ''SQL Injection'', description = JString ''d'',
                            level = JString ''beginner'', version = JString ''''\<rparr>,
           build_error = None\<rparr>
   = (Json 200 [(''message'', ''Exercise uploaded successfully''),
                (''image.name'', ''SQL Injection''),
                (''image.version'', ''latest''),
                (''image.tag'', ''training/sql-injection:latest'')],
      \<lparr>docker_images = [\<lparr>di_id = 1, di_name = ''SQL Injection'', di_version = ''latest'',
                          di_level = ''beginner'', di_image_id = ''training/sql-injection:latest''\<rparr>],
       docker_images_seq = 1\<rparr>)
   \<and> ''training/'' @ slug_spec ''SQL Injection'' @ '':'' @ version_spec (JString '''')
       = ''training/sql-injection:''"
  by code_simp


section \<open>Stop\<close>

lemma stopContainer_containers:
  "docker_available st \<Longrightarrow>
   containers (snd (stopContainer cid st)) =
     map (\<lambda>r. if container_id r = cid then r\<lparr>status := Stopped\<rparr> else r) (containers st)"
  by (simp add: stopContainer_def Let_def logEvent_def split: option.splits)

text \<open>
  C1 (amended).  When the runtime client is available, the stop procedure sets the status
  of every registry row with the given container id to \<open>stopped\<close>, whatever the status was:
  a row that is \<open>completed\<close> becomes \<open>stopped\<close>.  The stop by the owner, the forced stop by
  an admin and the reaping tick of the watcher all leave the registry as the stop procedure
  does.
\<close>

theorem stop_overwrites_status:
  assumes "docker_available st"
  shows "containers (snd (stopContainer cid st)) =
           map (\<lambda>r. if container_id r = cid then r\<lparr>status := Stopped\<rparr> else r) (containers st)
       \<and> containers (snd (admin_stop_route True cid st)) = containers (snd (stopContainer cid st))
       \<and> (find (\<lambda>r. container_id r = cid \<and> user_id r = u) (containers st) \<noteq> None \<longrightarrow>
            containers (snd (stop_route (Some u) cid st)) = containers (snd (stopContainer cid st)))
       \<and> (nowMs - lastActivity \<ge> CONTAINER_IDLE_TIMEOUT \<or> nowMs - startTime \<ge> CONTAINER_MAX_LIFETIME \<longrightarrow>
            containers (snd (checkActivity cid lastActivity startTime nowMs st)) =
            containers (snd (stopContainer cid st)))
       \<and> (\<forall>r \<in> set (containers st). container_id r = cid \<and> status r = Completed \<longrightarrow>
            r\<lparr>status := Stopped\<rparr> \<in> set (containers (snd (stopContainer cid st))))"
proof -
  have a: "containers (snd (stopContainer cid st)) =
           map (\<lambda>r. if container_id r = cid then r\<lparr>status := Stopped\<rparr> else r) (containers st)"
    using assms by (rule stopContainer_containers)
  have b: "containers (snd (admin_stop_route True cid st)) = containers (snd (stopContainer cid st))"
    by (simp add: admin_stop_route_def split: prod.splits option.splits)
  have c: "containers (snd (stop_route (Some u) cid st)) = containers (snd (stopContainer cid st))"
    if "find (\<lambda>r. container_id r = cid \<and> user_id r = u) (containers st) \<noteq> None"
    using that by (auto simp: stop_route_def split: prod.splits option.splits)
  have d: "containers (snd (checkActivity cid lastActivity startTime nowMs st)) =
            containers (snd (stopContainer cid st))"
    if "nowMs - lastActivity \<ge> CONTAINER_IDLE_TIMEOUT \<or> nowMs - startTime \<ge> CONTAINER_MAX_LIFETIME"
    using that by (auto simp: checkActivity_def Let_def)
  have e: "\<forall>r \<in> set (containers st). container_id r = cid \<and> status r = Completed \<longrightarrow>
            r\<lparr>status := Stopped\<rparr> \<in> set (containers (snd (stopContainer cid st)))"
    unfolding a by force
  from a b c d e show ?thesis by blast
qed

text \<open>
  The claim as stated keeps a \<open>completed\<close> row \<open>completed\<close>.  Here the row of container
  \<open>c1\<close> is \<open>completed\<close>, and is \<open>stopped\<close> after the stop procedure and after the forced
  stop by an admin.
\<close>

theorem stop_completed_counterexample:
  "map status (containers (empty_state\<lparr>runtime := [\<lparr>rt_id = ''c1'', rt_running = True, rt_labelled = True\<rparr>],
                                      containers := [row ''c1'' 1 ''s1'' Completed]\<rparr>)) = [Completed]
   \<and> map status (containers (snd (stopContainer ''c1''
           (empty_state\<lparr>runtime := [\<lparr>rt_id = ''c1'', rt_running = True, rt_labelled = True\<rparr>],
                        containers := [row ''c1'' 1 ''s1'' Completed]\<rparr>)))) = [Stopped]
   \<and> map status (containers (snd (admin_stop_route True ''c1''
           (empty_state\<lparr>runtime := [\<lparr>rt_id = ''c1'', rt_running = True, rt_labelled = True\<rparr>],
                        containers := [row ''c1'' 1 ''s1'' Completed]\<rparr>)))) = [Stopped]"
  by (simp add: empty_state_def row_def stopContainer_def admin_stop_route_def Let_def logEvent_def)

theorem stop_overwrites_status_witness:
  "map status (containers (snd (stopContainer ''c1''
       (empty_state\<lparr>containers := [row ''c1'' 1 ''s1'' Completed, row ''c2'' 2 ''s2'' Running]\<rparr>))))
   = [Stopped, Running]"
proof -
  let ?st = "empty_state\<lparr>containers := [row ''c1'' 1 ''s1'' Completed, row ''c2'' 2 ''s2'' Running]\<rparr>"
  have h: "docker_available ?st" by (simp add: empty_state_def)
  from stop_overwrites_status [OF h, of "''c1''"] show ?thesis
    by (simp add: empty_state_def row_def)
qed

section \<open>Reconciliation\<close>

lemma cleanupResources_noop:
  "\<not> docker_available st \<or> \<not> listed env \<Longrightarrow> cleanupResources env now st = st"
  by (auto simp: cleanupResources_def Let_def)

lemma cleanupResources_pass:
  assumes "docker_available st" and "listed env"
  shows "cleanupResources env now st =
     st\<lparr>containers :=
          filter (\<lambda>r. status r \<noteq> Stopped \<or> now \<le> created_at r + 24 * 60 * 60) (containers st),
        runtime :=
          filter (\<lambda>c. (\<forall>d \<in> set (runtime st).
                         rt_id d = rt_id c \<and> rt_labelled d \<and> rt_id d \<notin> set (unremovable env)
                         \<longrightarrow> (\<exists>r \<in> set (containers st). container_id r = rt_id d))
                     \<and> (pruned env \<longrightarrow> rt_running c))
                 (runtime st)\<rparr>"
proof -
  let ?orph = "filter (\<lambda>d. find (\<lambda>c. container_id c = rt_id d) (containers st) = None)
                 (filter rt_labelled (runtime st))"
  let ?removed = "filter (\<lambda>i. i \<notin> set (unremovable env)) (map rt_id ?orph)"
  have k: "(\<lambda>r. \<not> (status r = Stopped \<and> created_at r + 24 * 60 * 60 < now))
         = (\<lambda>r. status r \<noteq> Stopped \<or> now \<le> created_at r + 24 * 60 * 60)"
    by (auto simp: fun_eq_iff)
  have mem: "i \<in> set ?removed \<longleftrightarrow>
        (\<exists>d \<in> set (runtime st). rt_id d = i \<and> rt_labelled d
            \<and> (\<forall>r \<in> set (containers st). container_id r \<noteq> i)
            \<and> i \<notin> set (unremovable env))" for i
    by (auto simp: find_None_iff)
  have m: "rt_id c \<notin> set ?removed \<longleftrightarrow>
        (\<forall>d \<in> set (runtime st).
            rt_id d = rt_id c \<and> rt_labelled d \<and> rt_id d \<notin> set (unremovable env)
            \<longrightarrow> (\<exists>r \<in> set (containers st). container_id r = rt_id d))" for c
    unfolding mem by metis
  have r1: "filter (\<lambda>c. rt_id c \<notin> set ?removed) (runtime st)
          = filter (\<lambda>c. \<forall>d \<in> set (runtime st).
                         rt_id d = rt_id c \<and> rt_labelled d \<and> rt_id d \<notin> set (unremovable env)
                         \<longrightarrow> (\<exists>r \<in> set (containers st). container_id r = rt_id d)) (runtime st)"
    by (rule filter_cong) (simp_all only: m)
  have c: "cleanupResources env now st =
     st\<lparr>containers :=
          filter (\<lambda>r. \<not> (status r = Stopped \<and> created_at r + 24 * 60 * 60 < now)) (containers st),
        runtime :=
          (if pruned env
           then filter rt_running (filter (\<lambda>c. rt_id c \<notin> set ?removed) (runtime st))
           else filter (\<lambda>c. rt_id c \<notin> set ?removed) (runtime st))\<rparr>"
    using assms by (simp add: cleanupResources_def Let_def del: set_filter set_map)
  show ?thesis unfolding c k r1
    by (cases "pruned env") (simp_all add: conj_commute)
qed


text \<open>
  C2 (amended).  A run of the reconciliation leaves every registry row with status
  \<open>running\<close> in the registry as it is, whether or not the runtime still has its container.
  When the runtime client is missing or the listing of the runtime fails, the pass changes
  nothing.  Otherwise it changes exactly this: the registry loses its \<open>stopped\<close> rows created
  more than 24 hours ago and keeps every other row as it is; the runtime loses the containers
  whose id is that of a labelled container without registry row (unless the removal fails)
  and, when the pruning succeeds, the containers that do not run.
\<close>

theorem cleanup_keeps_running:
  "(r \<in> set (containers st) \<and> status r = Running \<longrightarrow>
      r \<in> set (containers (cleanupResources env now st)))
   \<and> (\<not> docker_available st \<or> \<not> listed env \<longrightarrow> cleanupResources env now st = st)
   \<and> (docker_available st \<and> listed env \<longrightarrow>
        cleanupResources env now st =
          st\<lparr>containers :=
               filter (\<lambda>r. status r \<noteq> Stopped \<or> now \<le> created_at r + 24 * 60 * 60)
                      (containers st),
             runtime :=
               filter (\<lambda>c. (\<forall>d \<in> set (runtime st).
                              rt_id d = rt_id c \<and> rt_labelled d \<and>
                              rt_id d \<notin> set (unremovable env)
                              \<longrightarrow> (\<exists>r \<in> set (containers st). container_id r = rt_id d))
                          \<and> (pruned env \<longrightarrow> rt_running c))
                      (runtime st)\<rparr>)"
proof -
  have n: "cleanupResources env now st = st" if "\<not> docker_available st \<or> \<not> listed env"
    using that by (rule cleanupResources_noop)
  have p: "cleanupResources env now st =
          st\<lparr>containers :=
               filter (\<lambda>r. status r \<noteq> Stopped \<or> now \<le> created_at r + 24 * 60 * 60)
                      (containers st),
             runtime :=
               filter (\<lambda>c. (\<forall>d \<in> set (runtime st).
                              rt_id d = rt_id c \<and> rt_labelled d \<and>
                              rt_id d \<notin> set (unremovable env)
                              \<longrightarrow> (\<exists>r \<in> set (containers st). container_id r = rt_id d))
                          \<and> (pruned env \<longrightarrow> rt_running c))
                      (runtime st)\<rparr>"
    if "docker_available st \<and> listed env"
    using that cleanupResources_pass [of st env now] by simp
  have k: "r \<in> set (containers (cleanupResources env now st))"
    if r: "r \<in> set (containers st) \<and> status r = Running"
  proof (cases "docker_available st \<and> listed env")
    case True
    show ?thesis unfolding p [OF True] using r by simp
  next
    case False
    then have "cleanupResources env now st = st" using n by blast
    then show ?thesis using r by simp
  qed
  from n p k show ?thesis by blast
qed

theorem cleanup_keeps_running_witness:
  "containers (cleanupResources \<lparr>listed = True, unremovable = [], pruned = True\<rparr> 1000000
      (empty_state
        \<lparr>runtime := [\<lparr>rt_id = ''c3'', rt_running = True, rt_labelled = True\<rparr>,
                     \<lparr>rt_id = ''c9'', rt_running = True, rt_labelled = True\<rparr>,
                     \<lparr>rt_id = ''c2'', rt_running = False, rt_labelled = True\<rparr>,
                     \<lparr>rt_id = ''x1'', rt_running = True, rt_labelled = False\<rparr>],
         containers := [row ''c1'' 1 ''s1'' Running, row ''c2'' 2 ''s2'' Stopped,
                        row ''c3'' 3 ''s3'' Completed,
                        (row ''c4'' 4 ''s4'' Stopped)\<lparr>created_at := 999000\<rparr>]\<rparr>))
     = [row ''c1'' 1 ''s1'' Running, row ''c3'' 3 ''s3'' Completed,
        (row ''c4'' 4 ''s4'' Stopped)\<lparr>created_at := 999000\<rparr>]
   \<and> runtime (cleanupResources \<lparr>listed = True, unremovable = [], pruned = True\<rparr> 1000000
      (empty_state
        \<lparr>runtime := [\<lparr>rt_id = ''c3'', rt_running = True, rt_labelled = True\<rparr>,
                     \<lparr>rt_id = ''c9'', rt_running = True, rt_labelled = True\<rparr>,
                     \<lparr>rt_id = ''c2'', rt_running = False, rt_labelled = True\<rparr>,
                     \<lparr>rt_id = ''x1'', rt_running = True, rt_labelled = False\<rparr>],
         containers := [row ''c1'' 1 ''s1'' Running, row ''c2'' 2 ''s2'' Stopped,
                        row ''c3'' 3 ''s3'' Completed,
                        (row ''c4'' 4 ''s4'' Stopped)\<lparr>created_at := 999000\<rparr>]\<rparr>))
     = [\<lparr>rt_id = ''c3'', rt_running = True, rt_labelled = True\<rparr>,
        \<lparr>rt_id = ''x1'', rt_running = True, rt_labelled = False\<rparr>]"
proof -
  let ?env = "\<lparr>listed = True, unremovable = [], pruned = True\<rparr>"
  let ?st = "empty_state
        \<lparr>runtime := [\<lparr>rt_id = ''c3'', rt_running = True, rt_labelled = True\<rparr>,
                     \<lparr>rt_id = ''c9'', rt_running = True, rt_labelled = True\<rparr>,
                     \<lparr>rt_id = ''c2'', rt_running = False, rt_labelled = True\<rparr>,
                     \<lparr>rt_id = ''x1'', rt_running = True, rt_labelled = False\<rparr>],
         containers := [row ''c1'' 1 ''s1'' Running, row ''c2'' 2 ''s2'' Stopped,
                        row ''c3'' 3 ''s3'' Completed,
                        (row ''c4'' 4 ''s4'' Stopped)\<lparr>created_at := 999000\<rparr>]\<rparr>"
  have h1: "row ''c1'' 1 ''s1'' Running \<in> set (containers ?st)
            \<and> status (row ''c1'' 1 ''s1'' Running) = Running"
    by (simp add: row_def)
  have h2: "docker_available ?st \<and> listed ?env" by (simp add: empty_state_def)
  from cleanup_keeps_running [of "row ''c1'' 1 ''s1'' Running" ?st ?env 1000000] h1 h2
  have "cleanupResources ?env 1000000 ?st =
          ?st\<lparr>containers :=
               filter (\<lambda>r. status r \<noteq> Stopped \<or> 1000000 \<le> created_at r + 24 * 60 * 60)
                      (containers ?st),
             runtime :=
               filter (\<lambda>c. (\<forall>d \<in> set (runtime ?st).
                              rt_id d = rt_id c \<and> rt_labelled d \<and>
                              rt_id d \<notin> set (unremovable ?env)
                              \<longrightarrow> (\<exists>r \<in> set (containers ?st). container_id r = rt_id d))
                          \<and> (pruned ?env \<longrightarrow> rt_running c))
                      (runtime ?st)\<rparr>"
    by blast
  then show ?thesis by (simp add: row_def)
qed

text \<open>
  The claim as stated marks a running row without runtime container as stopped.  Here the
  runtime has no container, the only row is \<open>running\<close>, and it is still \<open>running\<close> after
  the pass.
\<close>

theorem cleanup_missing_runtime_counterexample:
  "runtime (empty_state\<lparr>containers := [row ''c1'' 1 ''s1'' Running]\<rparr>) = []
   \<and> map status (containers (empty_state\<lparr>containers := [row ''c1'' 1 ''s1'' Running]\<rparr>)) = [Running]
   \<and> map status (containers (cleanupResources \<lparr>listed = True, unremovable = [], pruned = True\<rparr>
         1000000 (empty_state\<lparr>containers := [row ''c1'' 1 ''s1'' Running]\<rparr>))) = [Running]"
  by (simp add: empty_state_def row_def cleanupResources_def Let_def)

section \<open>Launch\<close>

lemma createContainer_insert_fails:
  assumes "docker_available st"
    and "find (\<lambda>i. di_id i = imageId) (docker_images (catalog st)) \<noteq> None"
    and "created env = Some cid" and "started env" and "port env = Some hostPort"
    and "insert_container (insert_error env)
           \<lparr>container_id = cid, image_id = imageId, user_id = userId, subdomain = uuid env,
            status = Running, host_port = hostPort, created_at = now\<rparr> (containers st) = Inl err"
  shows "createContainer imageId userId env nowMs now st =
           (Inl err,
            st\<lparr>runtime := set_running cid True
                  (runtime st @ [\<lparr>rt_id = cid, rt_running = False, rt_labelled = True\<rparr>])\<rparr>)"
  using assms by (auto simp: createContainer_def Let_def split: option.splits)

text \<open>
  C3 (amended).  When the runtime has created and started the container and reported its
  port, and the insert of the registry row fails, the launch returns the error of the insert;
  the new container is left running in the runtime and the registry is as it was.  Nothing
  is rolled back.
\<close>

theorem launch_without_rollback:
  assumes "docker_available st"
    and "find (\<lambda>i. di_id i = imageId) (docker_images (catalog st)) \<noteq> None"
    and "created env = Some cid" and "started env" and "port env = Some hostPort"
    and "insert_container (insert_error env)
           \<lparr>container_id = cid, image_id = imageId, user_id = userId, subdomain = uuid env,
            status = Running, host_port = hostPort, created_at = now\<rparr> (containers st) = Inl err"
  shows "\<exists>st'. createContainer imageId userId env nowMs now st = (Inl err, st')
             \<and> runtime st' = set_running cid True (runtime st) @
                               [\<lparr>rt_id = cid, rt_running = True, rt_labelled = True\<rparr>]
             \<and> containers st' = containers st"
proof -
  let ?st' = "st\<lparr>runtime := set_running cid True
                  (runtime st @ [\<lparr>rt_id = cid, rt_running = False, rt_labelled = True\<rparr>])\<rparr>"
  have "createContainer imageId userId env nowMs now st = (Inl err, ?st')"
    using assms by (rule createContainer_insert_fails)
  moreover have "runtime ?st' = set_running cid True (runtime st) @
                               [\<lparr>rt_id = cid, rt_running = True, rt_labelled = True\<rparr>]"
    by (simp add: set_running_def)
  moreover have "containers ?st' = containers st" by simp
  ultimately show ?thesis by blast
qed

theorem launch_without_rollback_witness:
  "\<exists>st'. createContainer 1 1
            \<lparr>uuid = ''9b2d6f0e-3c1a-4e5b-8f7a-1d2c3b4a5e6f'', created = Some ''c1'',
             started = True, port = Some ''32768'',
             insert_error = Some ''SQLITE_BUSY: database is locked''\<rparr>
            0 0 (empty_state\<lparr>catalog := one_image\<rparr>)
          = (Inl ''SQLITE_BUSY: database is locked'', st')
        \<and> runtime st' = [\<lparr>rt_id = ''c1'', rt_running = True, rt_labelled = True\<rparr>]
        \<and> containers st' = []"
proof -
  let ?env = "\<lparr>uuid = ''9b2d6f0e-3c1a-4e5b-8f7a-1d2c3b4a5e6f'', created = Some ''c1'',
             started = True, port = Some ''32768'',
             insert_error = Some ''SQLITE_BUSY: database is locked''\<rparr>"
  let ?st = "empty_state\<lparr>catalog := one_image\<rparr>"
  have h1: "docker_available ?st" by (simp add: empty_state_def)
  have h2: "find (\<lambda>i. di_id i = 1) (docker_images (catalog ?st)) \<noteq> None"
    by (simp add: one_image_def)
  have h3: "created ?env = Some ''c1''" and h4: "started ?env" and h5: "port ?env = Some ''32768''"
    by simp_all
  have h6: "insert_container (insert_error ?env)
           \<lparr>container_id = ''c1'', image_id = 1, user_id = 1, subdomain = uuid ?env,
            status = Running, host_port = ''32768'', created_at = 0\<rparr> (containers ?st)
         = Inl ''SQLITE_BUSY: database is locked''"
    by (simp add: insert_container_def)
  from launch_without_rollback [OF h1 h2 h3 h4 h5 h6, of 0] show ?thesis
    by (simp add: empty_state_def set_running_def)
qed

text \<open>
  The claim as stated has the new container stopped and removed before the error returns.
  Here the database is locked at the insert: the service throws, the route answers 500, the
  container \<open>c1\<close> is running in the runtime, and the registry has no row.
\<close>

theorem launch_rollback_counterexample:
  "fst (createContainer 1 1
            \<lparr>uuid = ''9b2d6f0e-3c1a-4e5b-8f7a-1d2c3b4a5e6f'', created = Some ''c1'',
             started = True, port = Some ''32768'',
             insert_error = Some ''SQLITE_BUSY: database is locked''\<rparr>
            0 0 (empty_state\<lparr>catalog := one_image\<rparr>))
     = Inl ''SQLITE_BUSY: database is locked''
   \<and> runtime (snd (createContainer 1 1
            \<lparr>uuid = ''9b2d6f0e-3c1a-4e5b-8f7a-1d2c3b4a5e6f'', created = Some ''c1'',
             started = True, port = Some ''32768'',
             insert_error = Some ''SQLITE_BUSY: database is locked''\<rparr>
            0 0 (empty_state\<lparr>catalog := one_image\<rparr>)))
     = [\<lparr>rt_id = ''c1'', rt_running = True, rt_labelled = True\<rparr>]
   \<and> containers (snd (createContainer 1 1
            \<lparr>uuid = ''9b2d6f0e-3c1a-4e5b-8f7a-1d2c3b4a5e6f'', created = Some ''c1'',
             started = True, port = Some ''32768'',
             insert_error = Some ''SQLITE_BUSY: database is locked''\<rparr>
            0 0 (empty_state\<lparr>catalog := one_image\<rparr>)))
     = []
   \<and> launch (Some 1) 1
            \<lparr>uuid = ''9b2d6f0e-3c1a-4e5b-8f7a-1d2c3b4a5e6f'', created = Some ''c1'',
             started = True, port = Some ''32768'',
             insert_error = Some ''SQLITE_BUSY: database is locked''\<rparr>
            0 0 (empty_state\<lparr>catalog := one_image\<rparr>)
     = (Json 500 [(''error'', ''Internal server error'')],
        empty_state\<lparr>catalog := one_image,
                     runtime := [\<lparr>rt_id = ''c1'', rt_running = True, rt_labelled = True\<rparr>]\<rparr>)"
  by (simp add: createContainer_def launch_def empty_state_def one_image_def Let_def
        insert_container_def set_running_def internal_error_def)


text \<open>
  C5 (amended).  When the subject already has three or more running rows, a launch request
  of that subject is denied with status 400 and the state is left as it was: no container
  is created in the runtime and no row is inserted.  The denial is \<open>QuotaExceeded\<close> when
  the subject has no running row for the requested exercise, and \<open>AlreadyRunning\<close> (naming
  the existing container) when there is one: that check comes first.
\<close>

theorem launch_at_quota:
  assumes "length (filter (\<lambda>r. user_id r = u \<and> status r = Running) (containers st)) \<ge> 3"
  shows "launch (Some u) imageId env nowMs now st =
           ((case find (\<lambda>r. user_id r = u \<and> image_id r = imageId \<and> status r = Running)
                       (containers st) of
               None \<Rightarrow> quota_exceeded
             | Some existingContainer \<Rightarrow> already_running existingContainer), st)
         \<and> (\<exists>body. fst (launch (Some u) imageId env nowMs now st) = Json 400 body)"
  using assms
  by (auto simp: launch_def quota_exceeded_def already_running_def split: option.splits)

theorem launch_at_quota_witness:
  "launch (Some 1) 4
      \<lparr>uuid = ''9b2d6f0e-3c1a-4e5b-8f7a-1d2c3b4a5e6f'', created = Some ''c4'', started = True,
       port = Some ''32769'', insert_error = None\<rparr> 0 0
      (empty_state\<lparr>containers := [row ''c1'' 1 ''s1'' Running, row ''c2'' 2 ''s2'' Running,
                                   row ''c3'' 3 ''s3'' Running]\<rparr>)
   = (quota_exceeded,
      empty_state\<lparr>containers := [row ''c1'' 1 ''s1'' Running, row ''c2'' 2 ''s2'' Running,
                                  row ''c3'' 3 ''s3'' Running]\<rparr>)"
proof -
  let ?st = "empty_state\<lparr>containers := [row ''c1'' 1 ''s1'' Running, row ''c2'' 2 ''s2'' Running,
                                   row ''c3'' 3 ''s3'' Running]\<rparr>"
  have h: "length (filter (\<lambda>r. user_id r = 1 \<and> status r = Running) (containers ?st)) \<ge> 3"
    by (simp add: row_def)
  from launch_at_quota [OF h, of 4] show ?thesis by (simp add: row_def)
qed

text \<open>
  The claim as stated denies every launch at the quota with \<open>QuotaExceeded\<close>.  Here user 1
  has three running containers, one of them for exercise 1, and asks for exercise 1: the
  answer is \<open>AlreadyRunning\<close>.
\<close>

theorem launch_quota_counterexample:
  "length (filter (\<lambda>r. user_id r = 1 \<and> status r = Running)
      (containers (empty_state\<lparr>containers := [row ''c1'' 1 ''s1'' Running, row ''c2'' 2 ''s2'' Running,
                                   row ''c3'' 3 ''s3'' Running]\<rparr>))) = 3
   \<and> fst (launch (Some 1) 1
      \<lparr>uuid = ''9b2d6f0e-3c1a-4e5b-8f7a-1d2c3b4a5e6f'', created = Some ''c4'', started = True,
       port = Some ''32769'', insert_error = None\<rparr> 0 0
      (empty_state\<lparr>containers := [row ''c1'' 1 ''s1'' Running, row ''c2'' 2 ''s2'' Running,
                                   row ''c3'' 3 ''s3'' Running]\<rparr>))
     = already_running (row ''c1'' 1 ''s1'' Running)
   \<and> already_running (row ''c1'' 1 ''s1'' Running) \<noteq> quota_exceeded"
  by (simp add: launch_def empty_state_def row_def already_running_def quota_exceeded_def)

lemma createContainer_progress:
  "exercise_progress (snd (createContainer imageId userId env nowMs now st)) = exercise_progress st"
  by (simp add: createContainer_def Let_def logEvent_def split: option.splits sum.splits)

text \<open>
  C10.  After a successful launch by user \<open>u\<close> of exercise \<open>imageId\<close> the progress row of
  the pair is a new row: attempts is the previous attempts plus one (1 when there was no
  row), the status is \<open>in_progress\<close>, and \<open>completed_at\<close> is \<open>NULL\<close>, so an earlier
  completion time is lost.  The rows of the other pairs are as before.
\<close>

theorem launch_replaces_progress:
  assumes "launch (Some u) imageId env nowMs now st = (Json 200 body, st')"
  shows "exercise_progress st' (u, imageId) =
           Some \<lparr>p_status = InProgress,
                 attempts = (case exercise_progress st (u, imageId) of
                               None \<Rightarrow> 1 | Some r \<Rightarrow> attempts r + 1),
                 completed_at = None\<rparr>
       \<and> (\<forall>k. k \<noteq> (u, imageId) \<longrightarrow> exercise_progress st' k = exercise_progress st k)"
proof -
  obtain res st1 where c: "createContainer imageId u env nowMs now st = (res, st1)"
    by (cases "createContainer imageId u env nowMs now st")
  have p: "exercise_progress st1 = exercise_progress st"
    using createContainer_progress [of imageId u env nowMs now st] c by simp
  from assms c have "st' = upsert_progress u imageId st1"
    by (auto simp: launch_def quota_exceeded_def already_running_def internal_error_def
             split: option.splits if_splits sum.splits prod.splits)
  then show ?thesis using p by (simp add: upsert_progress_def)
qed

theorem launch_replaces_progress_witness:
  "exercise_progress (snd (launch (Some 1) 1
      \<lparr>uuid = ''9b2d6f0e-3c1a-4e5b-8f7a-1d2c3b4a5e6f'', created = Some ''c1'', started = True,
       port = Some ''32768'', insert_error = None\<rparr> 0 0
      (empty_state\<lparr>catalog := one_image,
         exercise_progress := [(1, 1) \<mapsto> \<lparr>p_status = ProgressCompleted, attempts = 2,
                                            completed_at = Some 5\<rparr>]\<rparr>))) (1, 1)
   = Some \<lparr>p_status = InProgress, attempts = 3, completed_at = None\<rparr>"
proof -
  let ?env = "\<lparr>uuid = ''9b2d6f0e-3c1a-4e5b-8f7a-1d2c3b4a5e6f'', created = Some ''c1'',
               started = True, port = Some ''32768'', insert_error = None\<rparr>"
  let ?st = "empty_state\<lparr>catalog := one_image,
         exercise_progress := [(1, 1) \<mapsto> \<lparr>p_status = ProgressCompleted, attempts = 2,
                                            completed_at = Some 5\<rparr>]\<rparr>"
  obtain st' where h: "launch (Some 1) 1 ?env 0 0 ?st
     = (Json 200 [(''containerId'', ''c1''),
                  (''subdomain'', ''9b2d6f0e-3c1a-4e5b-8f7a-1d2c3b4a5e6f.apptraining.dbg.local'')], st')"
    by (simp add: launch_def createContainer_def empty_state_def one_image_def Let_def
          insert_container_def)
  from launch_replaces_progress [OF h] h show ?thesis by simp
qed

section \<open>Completion callback\<close>

text \<open>
  C4.  For a subdomain without registry row the service throws \<open>Container not found\<close>, and
  the route answers that error, like every other one, with status 500; the state is left as
  it was.
\<close>

theorem complete_unknown_subdomain:
  "complete_route ''9b2d6f0e-3c1a-4e5b-8f7a-1d2c3b4a5e6f'' 0 empty_state
   = (Json 500 [(''error'', ''Internal server error'')], empty_state)"
  by (simp add: complete_route_def handleExerciseCompletion_def empty_state_def internal_error_def)







section \<open>Subdomain router\<close>

lemma split_on_not_Nil: "split_on d s \<noteq> []"
  by (induction s) (auto split: list.splits)

lemma validateUUID_Nil: "\<not> validateUUID []"
  by (simp add: validateUUID_def uuid_pattern_def)

text \<open>
  C6 (amended).  If the hostname has at least three labels, the leftmost label passes
  \<open>validate\<close> (a UUID of any of the versions 1 to 5, or the nil UUID) and no registry row
  with that subdomain is running, the answer is 404 with the error
  \<open>Container not found or not running\<close> and the subdomain.  If the hostname has fewer than
  three labels or the leftmost label does not pass \<open>validate\<close>, the request passes to the
  main application and the state is as before.  Every UUID of version 4 passes \<open>validate\<close>.
\<close>

theorem subdomain_routing:
  "(length (split_on CHR ''.'' hostname) \<ge> 3
      \<and> validateUUID (hd (split_on CHR ''.'' hostname))
      \<and> find (\<lambda>r. subdomain r = hd (split_on CHR ''.'' hostname) \<and> status r = Running)
              (containers st) = None
      \<longrightarrow> subdomainHandler hostname nowMs st
            = (Json 404 [(''error'', ''Container not found or not running''),
                         (''subdomain'', hd (split_on CHR ''.'' hostname))], st))
   \<and> (length (split_on CHR ''.'' hostname) < 3
        \<or> \<not> validateUUID (hd (split_on CHR ''.'' hostname))
      \<longrightarrow> subdomainHandler hostname nowMs st = (Next, st))
   \<and> (is_uuid_v4 (hd (split_on CHR ''.'' hostname))
      \<longrightarrow> validateUUID (hd (split_on CHR ''.'' hostname)))"
proof -
  let ?parts = "split_on CHR ''.'' hostname"
  have hd0: "?parts ! 0 = hd ?parts"
    using split_on_not_Nil [of "CHR ''.''" hostname] by (simp add: hd_conv_nth)
  have a: "subdomainHandler hostname nowMs st
            = (Json 404 [(''error'', ''Container not found or not running''),
                         (''subdomain'', hd ?parts)], st)"
    if "length ?parts \<ge> 3 \<and> validateUUID (hd ?parts)
        \<and> find (\<lambda>r. subdomain r = hd ?parts \<and> status r = Running) (containers st) = None"
    using that hd0 validateUUID_Nil
    by (auto simp: subdomainHandler_def extractSubdomain_def Let_def not_running_def)
  have b: "subdomainHandler hostname nowMs st = (Next, st)"
    if "length ?parts < 3 \<or> \<not> validateUUID (hd ?parts)"
    using that hd0 by (auto simp: subdomainHandler_def extractSubdomain_def Let_def)
  have c: "validateUUID (hd ?parts)" if "is_uuid_v4 (hd ?parts)"
    using that by (rule v4_valid)
  from a b c show ?thesis by blast
qed

theorem subdomain_routing_witness:
  "subdomainHandler ''9b2d6f0e-3c1a-4e5b-8f7a-1d2c3b4a5e6f.apptraining.dbg.local'' 0 empty_state
     = (Json 404 [(''error'', ''Container not found or not running''),
                  (''subdomain'', ''9b2d6f0e-3c1a-4e5b-8f7a-1d2c3b4a5e6f'')], empty_state)
   \<and> subdomainHandler ''dbg.local'' 0 empty_state = (Next, empty_state)
   \<and> subdomainHandler ''www.dbg.local'' 0 empty_state = (Next, empty_state)"
proof -
  have s1: "split_on CHR ''.'' ''9b2d6f0e-3c1a-4e5b-8f7a-1d2c3b4a5e6f.apptraining.dbg.local''
            = [''9b2d6f0e-3c1a-4e5b-8f7a-1d2c3b4a5e6f'', ''apptraining'', ''dbg'', ''local'']"
    by code_simp
  have s2: "split_on CHR ''.'' ''dbg.local'' = [''dbg'', ''local'']"
    by code_simp
  have s3: "split_on CHR ''.'' ''www.dbg.local'' = [''www'', ''dbg'', ''local'']"
    by code_simp
  have v1: "validateUUID ''9b2d6f0e-3c1a-4e5b-8f7a-1d2c3b4a5e6f''" by code_simp
  have v3: "\<not> validateUUID ''www''" by code_simp
  have e: "containers empty_state = []" by (simp add: empty_state_def)
  note t = subdomain_routing
  have a: "subdomainHandler ''9b2d6f0e-3c1a-4e5b-8f7a-1d2c3b4a5e6f.apptraining.dbg.local'' 0 empty_state
     = (Json 404 [(''error'', ''Container not found or not running''),
                  (''subdomain'', ''9b2d6f0e-3c1a-4e5b-8f7a-1d2c3b4a5e6f'')], empty_state)"
    using t [of "''9b2d6f0e-3c1a-4e5b-8f7a-1d2c3b4a5e6f.apptraining.dbg.local''" empty_state 0]
    unfolding s1 using v1 e by simp
  have b: "subdomainHandler ''dbg.local'' 0 empty_state = (Next, empty_state)"
    using t [of "''dbg.local''" empty_state 0] unfolding s2 by simp
  have c: "subdomainHandler ''www.dbg.local'' 0 empty_state = (Next, empty_state)"
    using t [of "''www.dbg.local''" empty_state 0] unfolding s3 using v3 by simp
  from a b c show ?thesis by simp
qed

text \<open>
  The claim as stated passes every leftmost label that is not a UUID of version 4 to the main
  application.  Here the leftmost label is a UUID of version 1 without running row: the
  answer is 404.
\<close>

theorem subdomain_uuid_v1_counterexample:
  "\<not> is_uuid_v4 ''123e4567-e89b-12d3-a456-426614174000''
   \<and> subdomainHandler ''123e4567-e89b-12d3-a456-426614174000.apptraining.dbg.local'' 0 empty_state
     = (Json 404 [(''error'', ''Container not found or not running''),
                  (''subdomain'', ''123e4567-e89b-12d3-a456-426614174000'')], empty_state)"
proof -
  have s: "extractSubdomain ''123e4567-e89b-12d3-a456-426614174000.apptraining.dbg.local''
            = Some ''123e4567-e89b-12d3-a456-426614174000''"
    by code_simp
  have v: "validateUUID ''123e4567-e89b-12d3-a456-426614174000''" by code_simp
  have n: "\<not> is_uuid_v4 ''123e4567-e89b-12d3-a456-426614174000''" by code_simp
  have e: "containers empty_state = []" by (simp add: empty_state_def)
  show ?thesis using n by (simp add: subdomainHandler_def s v e not_running_def)
qed

end
